theory Spec2Isabelle
  imports Complex_Main "HOL-Library.List_Lexorder"
begin

section \<open>Tables\<close>

text \<open>
  The program \<^verbatim>\<open>sum_komoditas.py\<close> works on pandas data frames. Every column of a
  frame has a dtype, which \<^verbatim>\<open>read_excel\<close> decides once for the whole sheet and which
  row filtering keeps: \<open>Int64\<close> for whole numbers in 64 bits, \<open>Float64\<close> for numbers
  with a blank or a fraction among them, \<open>Object\<close> for Python values (texts, and
  integers without bound). A cell is a whole number, a fraction, a text, a blank (pandas'
  NaN), or a number that this development does not determine: the result of a sum in
  double precision that need not be exact. In a \<open>Float64\<close> column a number stands for
  the double nearest to it.

  A frame stores each row as the list of its cells, in the order of the columns; a row is
  read as a function from column names to cells, blank at every name that is not a column
  of its frame.
\<close>

datatype cell = Num int | Flt rat | Str string | NaN | Untracked

datatype dtype = Int64 | Float64 | Object

datatype error = FileError | SheetNotFound string | KeyError string | TypeError | IndexError

type_synonym row = "string \<Rightarrow> cell"

record frame =
  columns :: "(string \<times> dtype) list"
  rows :: "cell list list"

definition names :: "frame \<Rightarrow> string list" where
  "names df = map fst (columns df)"

definition read_row :: "string list \<Rightarrow> cell list \<Rightarrow> row" where
  "read_row cols cells c = (case map_of (zip cols cells) c of Some v \<Rightarrow> v | None \<Rightarrow> NaN)"

definition records :: "frame \<Rightarrow> row list" where
  "records df = map (read_row (names df)) (rows df)"

definition dtype_of :: "frame \<Rightarrow> string \<Rightarrow> dtype" where
  "dtype_of df c = (case map_of (columns df) c of Some d \<Rightarrow> d | None \<Rightarrow> Object)"

text \<open>\<^verbatim>\<open>pd.DataFrame()\<close>: no columns, no rows.\<close>

definition DataFrame :: frame where
  "DataFrame = \<lparr>columns = [], rows = []\<rparr>"

text \<open>\<^verbatim>\<open>df.empty\<close>: one of the two axes has length 0.\<close>

definition frame_empty :: "frame \<Rightarrow> bool" where
  "frame_empty df \<longleftrightarrow> columns df = [] \<or> rows df = []"

fun numval :: "cell \<Rightarrow> int" where
  "numval (Num i) = i"
| "numval v = 0"

fun ratval :: "cell \<Rightarrow> rat" where
  "ratval (Num i) = of_int i"
| "ratval (Flt q) = q"
| "ratval v = 0"

fun is_text :: "cell \<Rightarrow> bool" where
  "is_text (Str s) = True"
| "is_text v = False"

text \<open>A whole number or a blank.\<close>

fun whole :: "cell \<Rightarrow> bool" where
  "whole (Num i) = True"
| "whole NaN = True"
| "whole v = False"

fun dtype_of_cell :: "cell \<Rightarrow> dtype" where
  "dtype_of_cell (Num i) = Int64"
| "dtype_of_cell (Str s) = Object"
| "dtype_of_cell v = Float64"

fun common_dtype :: "dtype \<Rightarrow> dtype \<Rightarrow> dtype" where
  "common_dtype Int64 Int64 = Int64"
| "common_dtype Object e = Object"
| "common_dtype d Object = Object"
| "common_dtype d e = Float64"

fun hold_na :: "dtype \<Rightarrow> dtype" where
  "hold_na Int64 = Float64"
| "hold_na d = d"

subsection \<open>Summation\<close>

text \<open>
  A sum in pandas skips the blanks and is 0 when nothing else is left. What it adds with
  depends on the dtype of the column.

  In an \<open>Int64\<close> column the sum is taken in 64-bit two's complement: it wraps around
  silently.
\<close>

definition wrap64 :: "int \<Rightarrow> int" where
  "wrap64 i = (i + 2 ^ 63) mod 2 ^ 64 - 2 ^ 63"

text \<open>
  In a \<open>Float64\<close> column the sum is taken in double precision, in an order that depends
  on the operation (compensated in a group-by, pairwise in a reduction). Whatever the order,
  every partial sum is exact, and so is the result, when all the numbers are multiples of
  one unit, a power of two that doubles resolve, and their absolute values add up to at most
  two to the power 53 units; for whole numbers the unit is 1. Otherwise the result is a
  double that is not determined here.
\<close>

definition exact_limit :: int where
  "exact_limit = 2 ^ 53"

definition cell_of_rat :: "rat \<Rightarrow> cell" where
  "cell_of_rat q = (case quotient_of q of (n, d) \<Rightarrow> if d = 1 then Num n else Flt q)"

definition frac_sum :: "cell list \<Rightarrow> cell" where
  "frac_sum vs =
     (if list_ex (\<lambda>v. v = Untracked \<or> is_text v) vs then Untracked
      else
        (let units = fold lcm (map (\<lambda>v. snd (quotient_of (ratval v))) vs) 1
         in if units dvd 2 ^ 1074
               \<and> sum_list (map (\<lambda>v. \<bar>ratval v\<bar>) vs) * of_int units \<le> of_int exact_limit
            then cell_of_rat (sum_list (map ratval vs))
            else Untracked))"

definition float_sum :: "cell list \<Rightarrow> cell" where
  "float_sum vs =
     (if list_all whole vs
      then (if sum_list (map (\<lambda>v. \<bar>numval v\<bar>) vs) \<le> exact_limit
            then Num (sum_list (map numval vs))
            else Untracked)
      else frac_sum vs)"

text \<open>The sum over a column of a numeric dtype; it never raises.\<close>

definition sum_num :: "dtype \<Rightarrow> cell list \<Rightarrow> cell" where
  "sum_num d vs =
     (if d = Int64 \<and> list_all whole vs then Num (wrap64 (sum_list (map numval vs)))
      else float_sum vs)"

text \<open>
  In an \<open>Object\<close> column the sum is taken with Python's \<^verbatim>\<open>+\<close>, from left to right,
  starting from the first value that is not blank: texts concatenate, a number and a text
  raise TypeError, and two numbers add as Python integers, without bound, or as doubles,
  whichever they are. A frame does not record which of the two a whole number in an
  \<open>Object\<close> column is (a column of doubles that is concatenated with a column of Python
  values leaves doubles among them), so the sum of two numbers is determined here when it
  is the same either way: under the condition of the \<open>Float64\<close> sum.
\<close>

fun add_cell :: "cell \<Rightarrow> cell \<Rightarrow> error + cell" where
  "add_cell (Str a) (Str b) = Inr (Str (a @ b))"
| "add_cell x y =
     (if is_text x \<or> is_text y then Inl TypeError
      else if x = NaN \<or> y = NaN then Inr NaN
      else Inr (float_sum [x, y]))"

fun sum_from :: "cell \<Rightarrow> cell list \<Rightarrow> error + cell" where
  "sum_from acc [] = Inr acc"
| "sum_from acc (NaN # vs) = sum_from acc vs"
| "sum_from acc (v # vs) = (case add_cell acc v of Inl e \<Rightarrow> Inl e | Inr t \<Rightarrow> sum_from t vs)"

fun sum_obj :: "cell list \<Rightarrow> error + cell" where
  "sum_obj [] = Inr (Num 0)"
| "sum_obj (NaN # vs) = sum_obj vs"
| "sum_obj (v # vs) = sum_from v vs"

text \<open>The sum of a group-by or along a row, over cells of a column of the given dtype.\<close>

definition sum_cells :: "dtype \<Rightarrow> cell list \<Rightarrow> error + cell" where
  "sum_cells d vs =
     (if d = Object \<or> list_ex is_text vs then sum_obj vs else Inr (sum_num d vs))"

subsection \<open>Concatenation\<close>

text \<open>
  \<^verbatim>\<open>pd.concat([a, b], ignore_index=True)\<close>: a frame with neither rows nor columns is left
  out; otherwise the columns are those of \<open>a\<close> followed by the new ones of \<open>b\<close>, the rows
  of \<open>a\<close> come first, and a row gets a blank in every column its frame did not have.
  The dtype of a column is the common dtype of the parts that have the column, with or
  without rows; a part that lacks it forces a dtype that can hold a blank.
\<close>

definition concat_dtype :: "frame \<Rightarrow> frame \<Rightarrow> string \<Rightarrow> dtype" where
  "concat_dtype a b c =
     (case (map_of (columns a) c, map_of (columns b) c) of
        (Some d, Some e) \<Rightarrow> common_dtype d e
      | (Some d, None) \<Rightarrow> hold_na d
      | (None, Some e) \<Rightarrow> hold_na e
      | (None, None) \<Rightarrow> Object)"

definition concat_frames :: "frame \<Rightarrow> frame \<Rightarrow> frame" where
  "concat_frames a b =
     (if columns a = [] \<and> rows a = [] then b
      else if columns b = [] \<and> rows b = [] then a
      else
        (let cols = names a @ filter (\<lambda>c. c \<notin> set (names a)) (names b)
         in \<lparr>columns = map (\<lambda>c. (c, concat_dtype a b c)) cols,
             rows = map (\<lambda>r. map r cols) (records a @ records b)\<rparr>))"

subsection \<open>Column assignment\<close>

text \<open>\<^verbatim>\<open>df[c] = values\<close>: an existing column is overwritten in place, a new one is appended.\<close>

definition set_column :: "frame \<Rightarrow> string \<Rightarrow> dtype \<Rightarrow> cell list \<Rightarrow> frame" where
  "set_column df c d vs =
     (let cols = (if c \<in> set (names df) then names df else names df @ [c])
      in \<lparr>columns = map (\<lambda>n. (n, if n = c then d else dtype_of df n)) cols,
          rows = map (\<lambda>(r, v). map (r(c := v)) cols) (zip (records df) vs)\<rparr>)"

text \<open>
  \<^verbatim>\<open>df[c] = v\<close> for one value: every row gets it. A value taken out of a numeric
  column brings the dtype of that column; a Python value brings the dtype of its kind, a
  whole number that of an integer.
\<close>

definition set_scalar :: "frame \<Rightarrow> string \<Rightarrow> dtype \<Rightarrow> cell \<Rightarrow> frame" where
  "set_scalar df c d v = set_column df c d (replicate (length (rows df)) v)"

definition scalar_dtype :: "dtype \<Rightarrow> cell \<Rightarrow> dtype" where
  "scalar_dtype d v = (if d = Object then dtype_of_cell v else d)"

subsection \<open>Grouping\<close>

text \<open>
  \<^verbatim>\<open>df.groupby(key)[cols].sum().reset_index()\<close>: a missing key column or a missing
  selected column raises KeyError; rows whose key is blank are dropped; there is one row per
  distinct key, in ascending order of the keys (numbers by value before texts, texts by code
  point), holding the key and the sum of each selected column over the rows of the group.
  The key of a fraction lies after the whole number below it: its integer part, then the
  rank of the rest among the doubles.
\<close>

fun cell_key :: "cell \<Rightarrow> int list" where
  "cell_key (Num i) = [0, i]"
| "cell_key (Flt q) =
     [0, \<lfloor>q\<rfloor>, 1 + \<lfloor>(q - of_int \<lfloor>q\<rfloor>) * 2 ^ 1074\<rfloor>, fst (quotient_of q), snd (quotient_of q)]"
| "cell_key (Str s) = 1 # map (\<lambda>ch. int (of_char ch)) s"
| "cell_key NaN = [2]"
| "cell_key Untracked = [3]"

definition group_keys :: "frame \<Rightarrow> string \<Rightarrow> cell list" where
  "group_keys df key =
     sort_key cell_key (remdups (filter (\<lambda>k. k \<noteq> NaN) (map (\<lambda>r. r key) (records df))))"

fun sum_columns :: "(string \<Rightarrow> dtype) \<Rightarrow> row list \<Rightarrow> string list \<Rightarrow> error + cell list" where
  "sum_columns dt rs [] = Inr []"
| "sum_columns dt rs (c # cs) =
     (case sum_cells (dt c) (map (\<lambda>r. r c) rs) of
        Inl e \<Rightarrow> Inl e
      | Inr v \<Rightarrow> (case sum_columns dt rs cs of Inl e \<Rightarrow> Inl e | Inr vs \<Rightarrow> Inr (v # vs)))"

fun sum_groups :: "(string \<Rightarrow> dtype) \<Rightarrow> row list \<Rightarrow> string \<Rightarrow> string list \<Rightarrow> cell list \<Rightarrow> error + cell list list" where
  "sum_groups dt rs key cs [] = Inr []"
| "sum_groups dt rs key cs (k # ks) =
     (case sum_columns dt (filter (\<lambda>r. r key = k) rs) cs of
        Inl e \<Rightarrow> Inl e
      | Inr vs \<Rightarrow>
          (case sum_groups dt rs key cs ks of
             Inl e \<Rightarrow> Inl e
           | Inr gs \<Rightarrow> Inr ((k # vs) # gs)))"

definition groupby_sum :: "frame \<Rightarrow> string \<Rightarrow> string list \<Rightarrow> error + frame" where
  "groupby_sum df key cs =
     (if key \<notin> set (names df) then Inl (KeyError key)
      else case filter (\<lambda>c. c \<notin> set (names df)) cs of
             m # ms \<Rightarrow> Inl (KeyError m)
           | [] \<Rightarrow>
               (case sum_groups (dtype_of df) (records df) key cs (group_keys df key) of
                  Inl e \<Rightarrow> Inl e
                | Inr gs \<Rightarrow>
                    Inr \<lparr>columns = (key, dtype_of df key) # map (\<lambda>c. (c, dtype_of df c)) cs,
                         rows = gs\<rparr>))"

section \<open>Workbooks\<close>

text \<open>
  A file found by \<^verbatim>\<open>glob\<close> is either unreadable or a workbook: the frames that
  \<^verbatim>\<open>pd.read_excel\<close> returns for its sheets, by sheet name.
\<close>

datatype xlsx = Unreadable | Workbook "(string \<times> frame) list"

fun read_excel :: "xlsx \<Rightarrow> string \<Rightarrow> error + frame" where
  "read_excel Unreadable sheet_name = Inl FileError"
| "read_excel (Workbook sheets) sheet_name =
     (case map_of sheets sheet_name of None \<Rightarrow> Inl (SheetNotFound sheet_name) | Some df \<Rightarrow> Inr df)"

text \<open>\<^verbatim>\<open>df[df['kab'] == kab_code]\<close>: KeyError without a column \<^verbatim>\<open>kab\<close>.\<close>

definition filter_kab :: "frame \<Rightarrow> int \<Rightarrow> error + frame" where
  "filter_kab df kab_code =
     (if ''kab'' \<in> set (names df)
      then Inr (df\<lparr>rows := filter (\<lambda>cells. read_row (names df) cells ''kab'' = Num kab_code) (rows df)\<rparr>)
      else Inl (KeyError ''kab''))"

text \<open>\<^verbatim>\<open>os.path.basename\<close>: what follows the last slash.\<close>

definition basename :: "string \<Rightarrow> string" where
  "basename p = rev (takeWhile (\<lambda>ch. ch \<noteq> CHR ''/'') (rev p))"

text \<open>\<^verbatim>\<open>col.replace('id_', '')\<close>: every occurrence of \<^verbatim>\<open>id_\<close> is removed, left to right.\<close>

fun strip_id :: "string \<Rightarrow> string" where
  "strip_id (a # b # c # cs) =
     (if [a, b, c] = ''id_'' then strip_id cs else a # strip_id (b # c # cs))"
| "strip_id cs = cs"

section \<open>The aggregation\<close>

definition columns_to_sum :: "string list" where
  "columns_to_sum = [''n_rtup_tunggal'', ''n_rtup_campuran'', ''n_rtup_tumpang_sari'',
                     ''n_rtup_asosiasi_antar_semusim'', ''n_rtup_jumlah'', ''n_rtup'']"

text \<open>What the program prints, in order.\<close>

datatype message =
    NoFilesFound string
  | ProcessingFile string
  | ErrorProcessingFile string error
  | NoDataKab int string
  | ColumnNotFound string
  | NoDataKec int string
  | ColumnNotFoundKec string

text \<open>Lines 63--64: the district sheet of one file, filtered.\<close>

definition load_kab :: "xlsx \<Rightarrow> int \<Rightarrow> string \<Rightarrow> error + frame" where
  "load_kab wb kab_code table_prefix =
     (case read_excel wb (table_prefix @ ''_komoditas_kab'') of
        Inl e \<Rightarrow> Inl e
      | Inr df_kab \<Rightarrow> filter_kab df_kab kab_code)"

text \<open>Lines 68--73: the sub-district sheet of one file, filtered, summed by \<^verbatim>\<open>kec\<close>, tagged.\<close>

definition load_kec :: "string \<Rightarrow> xlsx \<Rightarrow> int \<Rightarrow> string \<Rightarrow> error + frame" where
  "load_kec file wb kab_code table_prefix =
     (case read_excel wb (table_prefix @ ''_komoditas_kec'') of
        Inl e \<Rightarrow> Inl e
      | Inr df_kec \<Rightarrow>
          (case filter_kab df_kec kab_code of
             Inl e \<Rightarrow> Inl e
           | Inr district_data_kec \<Rightarrow>
               (case groupby_sum district_data_kec ''kec'' columns_to_sum of
                  Inl e \<Rightarrow> Inl e
                | Inr summed_kec \<Rightarrow> Inr (set_scalar summed_kec ''file'' Object (Str (basename file))))))"

text \<open>
  Lines 61--77, the body of the \<^verbatim>\<open>try\<close>: the two accumulators after the file, and the
  exception caught, if any. The district accumulator is assigned on line 65, before the
  sub-district sheet is read.
\<close>

definition try_file :: "string \<Rightarrow> xlsx \<Rightarrow> int \<Rightarrow> string \<Rightarrow> frame \<Rightarrow> frame \<Rightarrow> frame \<times> frame \<times> error option" where
  "try_file file wb kab_code table_prefix result_kab result_kec =
     (case load_kab wb kab_code table_prefix of
        Inl e \<Rightarrow> (result_kab, result_kec, Some e)
      | Inr district_data_kab \<Rightarrow>
          (let result_kab' = concat_frames result_kab district_data_kab
           in case load_kec file wb kab_code table_prefix of
                Inl e \<Rightarrow> (result_kab', result_kec, Some e)
              | Inr summed_kec \<Rightarrow> (result_kab', concat_frames result_kec summed_kec, None)))"

text \<open>Lines 59--77: the loop over the files.\<close>

fun loop_files :: "(string \<times> xlsx) list \<Rightarrow> int \<Rightarrow> string \<Rightarrow> frame \<times> frame \<times> message list \<Rightarrow> frame \<times> frame \<times> message list" where
  "loop_files [] kab_code table_prefix st = st"
| "loop_files ((file, wb) # files) kab_code table_prefix (result_kab, result_kec, out) =
     (case try_file file wb kab_code table_prefix result_kab result_kec of
        (result_kab', result_kec', None) \<Rightarrow>
          loop_files files kab_code table_prefix (result_kab', result_kec', out @ [ProcessingFile file])
      | (result_kab', result_kec', Some e) \<Rightarrow>
          loop_files files kab_code table_prefix
            (result_kab', result_kec', out @ [ProcessingFile file, ErrorProcessingFile file e]))"

subsection \<open>The district summary\<close>

text \<open>
  Lines 85--90: the numeric columns but \<^verbatim>\<open>id_komoditas\<close> and \<^verbatim>\<open>ID\<close>, each summed by
  its dtype, into one row. The row has one dtype: \<open>Int64\<close> when all the summed columns
  have it, \<open>Float64\<close> otherwise.
\<close>

definition numeric_columns :: "frame \<Rightarrow> string list" where
  "numeric_columns df = map fst (filter (\<lambda>(c, d). d = Float64 \<or> d = Int64) (columns df))"

definition row_to_sum :: "frame \<Rightarrow> string list" where
  "row_to_sum df = filter (\<lambda>col. col \<notin> set [''id_komoditas'', ''ID'']) (numeric_columns df)"

definition sum_row_kab :: "frame \<Rightarrow> cell list" where
  "sum_row_kab df =
     map (\<lambda>c. sum_num (dtype_of df c) (map (\<lambda>r. r c) (records df))) (row_to_sum df)"

definition sum_dtype :: "frame \<Rightarrow> dtype" where
  "sum_dtype df = (if list_all (\<lambda>c. dtype_of df c = Int64) (row_to_sum df) then Int64 else Float64)"

definition sum_frame_kab :: "frame \<Rightarrow> frame" where
  "sum_frame_kab df =
     \<lparr>columns = map (\<lambda>c. (c, sum_dtype df)) (row_to_sum df), rows = [sum_row_kab df]\<rparr>"

text \<open>\<^verbatim>\<open>df[col].iloc[0]\<close>: IndexError on a frame without rows.\<close>

definition iloc0 :: "frame \<Rightarrow> string \<Rightarrow> error + cell" where
  "iloc0 df col = (case records df of [] \<Rightarrow> Inl IndexError | r # rs \<Rightarrow> Inr (r col))"

text \<open>Lines 93--98.\<close>

fun attach_ids_kab :: "string list \<Rightarrow> frame \<Rightarrow> frame \<Rightarrow> message list \<Rightarrow> error + frame \<times> message list" where
  "attach_ids_kab [] result_kab summary_kab out = Inr (summary_kab, out)"
| "attach_ids_kab (col # cols) result_kab summary_kab out =
     (if col \<in> set (names result_kab)
      then (case iloc0 result_kab col of
              Inl e \<Rightarrow> Inl e
            | Inr v \<Rightarrow>
                attach_ids_kab cols result_kab
                  (set_scalar summary_kab (strip_id col) (scalar_dtype (dtype_of result_kab col) v) v)
                  out)
      else attach_ids_kab cols result_kab summary_kab (out @ [ColumnNotFound col]))"

text \<open>Lines 80--98.\<close>

definition summarize_kab :: "frame \<Rightarrow> int \<Rightarrow> string \<Rightarrow> message list \<Rightarrow> error + frame option \<times> message list" where
  "summarize_kab result_kab kab_code table_prefix out =
     (if frame_empty result_kab then Inr (None, out @ [NoDataKab kab_code table_prefix])
      else (case attach_ids_kab [''id_prov'', ''id_kab''] result_kab (sum_frame_kab result_kab) out of
              Inl e \<Rightarrow> Inl e
            | Inr (summary_kab, out') \<Rightarrow> Inr (Some summary_kab, out')))"

subsection \<open>The sub-district summary\<close>

text \<open>
  \<^verbatim>\<open>str(v)\<close> of a cell in a column of the given dtype, for \<^verbatim>\<open>astype(str)\<close>. The text
  of a fraction or of a double from \<^verbatim>\<open>1e16\<close> on is not determined here.
\<close>

fun digits :: "nat \<Rightarrow> string" where
  "digits n = (if n < 10 then [char_of (48 + n)] else digits (n div 10) @ [char_of (48 + n mod 10)])"

declare digits.simps [simp del]

definition str_int :: "int \<Rightarrow> string" where
  "str_int i = (if i < 0 then CHR ''-'' # digits (nat (- i)) else digits (nat i))"

fun astype_str :: "dtype \<Rightarrow> cell \<Rightarrow> cell" where
  "astype_str d (Str s) = Str s"
| "astype_str d NaN = Str ''nan''"
| "astype_str d (Flt q) = Untracked"
| "astype_str d Untracked = Untracked"
| "astype_str Float64 (Num i) =
     (if \<bar>i\<bar> < 10 ^ 16 then Str (str_int i @ ''.0'') else Untracked)"
| "astype_str d (Num i) = Str (str_int i)"

text \<open>Lines 108--113.\<close>

fun attach_ids_kec :: "string list \<Rightarrow> frame \<Rightarrow> message list \<Rightarrow> frame \<times> message list" where
  "attach_ids_kec [] result_kec out = (result_kec, out)"
| "attach_ids_kec (col # cols) result_kec out =
     (if col \<in> set (names result_kec)
      then attach_ids_kec cols
             (set_column result_kec (strip_id col) Object
                (map (\<lambda>r. astype_str (dtype_of result_kec col) (r col)) (records result_kec)))
             out
      else attach_ids_kec cols result_kec (out @ [ColumnNotFoundKec col]))"

text \<open>
  Line 116: \<^verbatim>\<open>df[columns_to_sum].sum(axis=1)\<close>, the sum along each row, taken in the
  common dtype of the selected columns.
\<close>

definition row_sum_dtype :: "frame \<Rightarrow> string list \<Rightarrow> dtype" where
  "row_sum_dtype df cs = fold (\<lambda>c d. common_dtype d (dtype_of df c)) cs Int64"

fun row_sums :: "dtype \<Rightarrow> row list \<Rightarrow> string list \<Rightarrow> error + cell list" where
  "row_sums d [] cs = Inr []"
| "row_sums d (r # rs) cs =
     (case sum_cells d (map r cs) of
        Inl e \<Rightarrow> Inl e
      | Inr v \<Rightarrow> (case row_sums d rs cs of Inl e \<Rightarrow> Inl e | Inr vs \<Rightarrow> Inr (v # vs)))"

text \<open>Lines 101--116.\<close>

definition summarize_kec :: "frame \<Rightarrow> int \<Rightarrow> string \<Rightarrow> message list \<Rightarrow> error + frame \<times> message list" where
  "summarize_kec result_kec kab_code table_prefix out =
     (if frame_empty result_kec then Inr (result_kec, out @ [NoDataKec kab_code table_prefix])
      else (case groupby_sum result_kec ''kec'' columns_to_sum of
              Inl e \<Rightarrow> Inl e
            | Inr grouped \<Rightarrow>
                (case attach_ids_kec [''id_prov'', ''id_kab'', ''id_kec''] grouped out of
                   (with_ids, out') \<Rightarrow>
                     (case row_sums (row_sum_dtype with_ids columns_to_sum) (records with_ids) columns_to_sum of
                        Inl e \<Rightarrow> Inl e
                      | Inr totals \<Rightarrow>
                          Inr (set_column with_ids ''SUM'' (row_sum_dtype with_ids columns_to_sum) totals,
                               out')))))"

subsection \<open>\<^verbatim>\<open>process_files\<close>\<close>

text \<open>
  \<open>files\<close> is the list that \<^verbatim>\<open>glob\<close> returns on line 45, each path with the workbook
  found there. The result is what is printed and the pair returned; \<open>None\<close> is Python's
  \<^verbatim>\<open>None\<close>. An exception raised outside the \<^verbatim>\<open>try\<close> leaves the function: \<open>Inl\<close>.
\<close>

definition process_files :: "(string \<times> xlsx) list \<Rightarrow> int \<Rightarrow> string \<Rightarrow> error + message list \<times> frame option \<times> frame option" where
  "process_files files kab_code table_prefix =
     (if files = [] then Inr ([NoFilesFound table_prefix], None, None)
      else
        (case loop_files files kab_code table_prefix (DataFrame, DataFrame, []) of
           (result_kab, result_kec, out) \<Rightarrow>
             (case summarize_kab result_kab kab_code table_prefix out of
                Inl e \<Rightarrow> Inl e
              | Inr (summary_kab, out1) \<Rightarrow>
                  (case summarize_kec result_kec kab_code table_prefix out1 of
                     Inl e \<Rightarrow> Inl e
                   | Inr (result_kec', out2) \<Rightarrow> Inr (out2, summary_kab, Some result_kec')))))"

section \<open>Notions used to state the properties\<close>

text \<open>
  The exception that the \<^verbatim>\<open>try\<close> body raises on a file, if any: that of the district
  stage, or else that of the sub-district stage. A file is processed successfully when
  there is none.
\<close>

definition file_error :: "string \<Rightarrow> xlsx \<Rightarrow> int \<Rightarrow> string \<Rightarrow> error option" where
  "file_error file wb kab_code table_prefix =
     (case load_kab wb kab_code table_prefix of
        Inl e \<Rightarrow> Some e
      | Inr district_data_kab \<Rightarrow>
          (case load_kec file wb kab_code table_prefix of Inl e \<Rightarrow> Some e | Inr summed_kec \<Rightarrow> None))"

text \<open>The rows of a sheet of a workbook whose \<^verbatim>\<open>kab\<close> is the requested district code.\<close>

definition sheet_rows :: "xlsx \<Rightarrow> string \<Rightarrow> int \<Rightarrow> row list" where
  "sheet_rows wb sheet_name kab_code =
     (case read_excel wb sheet_name of
        Inl e \<Rightarrow> []
      | Inr df \<Rightarrow> filter (\<lambda>r. r ''kab'' = Num kab_code) (records df))"

text \<open>The matching rows of the district sheets of all files, in file and row order.\<close>

definition kab_rows :: "(string \<times> xlsx) list \<Rightarrow> int \<Rightarrow> string \<Rightarrow> row list" where
  "kab_rows files kab_code table_prefix =
     concat (map (\<lambda>(file, wb). sheet_rows wb (table_prefix @ ''_komoditas_kab'') kab_code) files)"


text \<open>The matching rows of the sub-district sheets of all files, processed successfully or not.\<close>

definition all_kec_rows :: "(string \<times> xlsx) list \<Rightarrow> int \<Rightarrow> string \<Rightarrow> row list" where
  "all_kec_rows files kab_code table_prefix =
     concat (map (\<lambda>(file, wb). sheet_rows wb (table_prefix @ ''_komoditas_kec'') kab_code) files)"

text \<open>The cells of a column of a frame, from the first row to the last.\<close>

definition column_cells :: "frame \<Rightarrow> string \<Rightarrow> cell list" where
  "column_cells df c = map (\<lambda>r. r c) (records df)"

text \<open>The arithmetic sum of a column over rows (a blank counts 0), and over the rows of one group.\<close>

definition column_sum :: "row list \<Rightarrow> string \<Rightarrow> int" where
  "column_sum rs c = sum_list (map (\<lambda>r. numval (r c)) rs)"








text \<open>The two accumulators and the output after the loop of lines 59--77.\<close>

definition result_kab_of :: "(string \<times> xlsx) list \<Rightarrow> int \<Rightarrow> string \<Rightarrow> frame" where
  "result_kab_of files kab_code table_prefix =
     fst (loop_files files kab_code table_prefix (DataFrame, DataFrame, []))"

definition result_kec_of :: "(string \<times> xlsx) list \<Rightarrow> int \<Rightarrow> string \<Rightarrow> frame" where
  "result_kec_of files kab_code table_prefix =
     fst (snd (loop_files files kab_code table_prefix (DataFrame, DataFrame, [])))"

definition loop_out :: "(string \<times> xlsx) list \<Rightarrow> int \<Rightarrow> string \<Rightarrow> message list" where
  "loop_out files kab_code table_prefix =
     snd (snd (loop_files files kab_code table_prefix (DataFrame, DataFrame, [])))"

text \<open>What one file adds to each accumulator and to the output.\<close>

definition kab_part :: "xlsx \<Rightarrow> int \<Rightarrow> string \<Rightarrow> frame list" where
  "kab_part wb kab_code table_prefix =
     (case load_kab wb kab_code table_prefix of Inl e \<Rightarrow> [] | Inr d \<Rightarrow> [d])"

definition kec_part :: "string \<Rightarrow> xlsx \<Rightarrow> int \<Rightarrow> string \<Rightarrow> frame list" where
  "kec_part file wb kab_code table_prefix =
     (case load_kab wb kab_code table_prefix of
        Inl e \<Rightarrow> []
      | Inr d \<Rightarrow> (case load_kec file wb kab_code table_prefix of Inl e \<Rightarrow> [] | Inr s \<Rightarrow> [s]))"

definition file_messages :: "string \<Rightarrow> xlsx \<Rightarrow> int \<Rightarrow> string \<Rightarrow> message list" where
  "file_messages file wb kab_code table_prefix =
     ProcessingFile file #
       (case file_error file wb kab_code table_prefix of
          None \<Rightarrow> []
        | Some e \<Rightarrow> [ErrorProcessingFile file e])"

text \<open>The row of column sums of lines 89--90, and one round of the loop of lines 93--98.\<close>

definition sum_record :: "frame \<Rightarrow> row" where
  "sum_record df c =
     (if c \<in> set (row_to_sum df) then sum_num (dtype_of df c) (map (\<lambda>r. r c) (records df)) else NaN)"

definition attach_one :: "frame \<Rightarrow> string \<Rightarrow> frame \<Rightarrow> frame" where
  "attach_one result_kab col summary =
     (if col \<in> set (names result_kab)
      then set_scalar summary (strip_id col)
             (scalar_dtype (dtype_of result_kab col) (hd (records result_kab) col))
             (hd (records result_kab) col)
      else summary)"

definition missing_one :: "frame \<Rightarrow> string \<Rightarrow> message list" where
  "missing_one result_kab col = (if col \<in> set (names result_kab) then [] else [ColumnNotFound col])"

text \<open>The row of the district summary after lines 93--98, and a row of line 105.\<close>

definition summary_record :: "frame \<Rightarrow> row" where
  "summary_record result_kab c =
     (if c = ''kab'' \<and> ''id_kab'' \<in> set (names result_kab) then hd (records result_kab) ''id_kab''
      else if c = ''prov'' \<and> ''id_prov'' \<in> set (names result_kab) then hd (records result_kab) ''id_prov''
      else sum_record result_kab c)"


section \<open>Example workbooks\<close>

text \<open>
  Two workbooks of table 4.54 with a district sheet and a sub-district sheet each, and a third
  one that has no sub-district sheet.
\<close>

definition kec_sheet_columns :: "(string \<times> dtype) list" where
  "kec_sheet_columns = [(''kab'', Int64), (''kec'', Int64)] @ map (\<lambda>c. (c, Int64)) columns_to_sum"

definition kab_sheet_A :: frame where
  "kab_sheet_A =
     \<lparr>columns = [(''kab'', Int64), (''id_kab'', Object), (''n_rtup'', Int64), (''ID'', Int64)],
      rows = [[Num 7205, Str ''[7205] BANGGAI'', Num 10, Num 1],
              [Num 7205, Str ''[7205] BANGGAI'', Num 5, Num 2],
              [Num 7206, Str ''[7206] MOROWALI'', Num 7, Num 3]]\<rparr>"

definition kab_sheet_B :: frame where
  "kab_sheet_B =
     \<lparr>columns = [(''kab'', Int64), (''id_kab'', Object), (''n_rtup'', Int64), (''ID'', Int64)],
      rows = [[Num 7205, Str ''[7205] BGI'', Num 3, Num 4]]\<rparr>"

definition kec_sheet_A :: frame where
  "kec_sheet_A =
     \<lparr>columns = kec_sheet_columns,
      rows = [[Num 7205, Num 20, Num 1, Num 2, Num 3, Num 4, Num 10, Num 10],
              [Num 7205, Num 10, Num 0, Num 0, Num 0, Num 0, Num 0, Num 5],
              [Num 7205, Num 20, Num 1, Num 1, Num 1, Num 1, Num 4, Num 5],
              [Num 7206, Num 10, Num 9, Num 9, Num 9, Num 9, Num 36, Num 9]]\<rparr>"

definition kec_sheet_B :: frame where
  "kec_sheet_B =
     \<lparr>columns = kec_sheet_columns,
      rows = [[Num 7205, Num 10, Num 0, Num 0, Num 0, Num 0, Num 0, Num 3]]\<rparr>"

definition file_A :: xlsx where
  "file_A = Workbook [(''4_54_komoditas_kab'', kab_sheet_A), (''4_54_komoditas_kec'', kec_sheet_A)]"

definition file_B :: xlsx where
  "file_B = Workbook [(''4_54_komoditas_kab'', kab_sheet_B), (''4_54_komoditas_kec'', kec_sheet_B)]"

definition file_C :: xlsx where
  "file_C = Workbook [(''4_54_komoditas_kab'', kab_sheet_B)]"

definition example_files :: "(string \<times> xlsx) list" where
  "example_files = [(''data/a_4_54.xlsx'', file_A), (''data/b_4_54.xlsx'', file_B)]"

text \<open>What the run on the two workbooks prints and returns for district 7205.\<close>

definition example_out :: "message list" where
  "example_out = [ProcessingFile ''data/a_4_54.xlsx'', ProcessingFile ''data/b_4_54.xlsx'',
                  ColumnNotFound ''id_prov'', ColumnNotFoundKec ''id_prov'',
                  ColumnNotFoundKec ''id_kab'', ColumnNotFoundKec ''id_kec'']"

definition example_summary_kab :: frame where
  "example_summary_kab =
     \<lparr>columns = [(''kab'', Object), (''n_rtup'', Int64)],
      rows = [[Str ''[7205] BANGGAI'', Num 18]]\<rparr>"

definition example_result_kec :: frame where
  "example_result_kec =
     \<lparr>columns = (''kec'', Int64) # map (\<lambda>c. (c, Int64)) columns_to_sum @ [(''SUM'', Int64)],
      rows = [[Num 10, Num 0, Num 0, Num 0, Num 0, Num 0, Num 8, Num 8],
              [Num 20, Num 2, Num 3, Num 4, Num 5, Num 14, Num 15, Num 43]]\<rparr>"

text \<open>
  A workbook whose sub-district sheet carries the three identifier columns, and the run on
  the first workbook together with the one that lacks its sub-district sheet.
\<close>

definition kec_sheet_D :: frame where
  "kec_sheet_D =
     \<lparr>columns = [(''kab'', Int64), (''kec'', Int64), (''id_prov'', Object), (''id_kab'', Object),
                 (''id_kec'', Object)] @ map (\<lambda>c. (c, Int64)) columns_to_sum,
      rows = [[Num 7205, Num 10, Str ''[72] SULAWESI TENGAH'', Str ''[7205] BANGGAI'',
               Str ''[010] TOILI'', Num 1, Num 0, Num 0, Num 0, Num 1, Num 1]]\<rparr>"

definition file_D :: xlsx where
  "file_D = Workbook [(''4_54_komoditas_kab'', kab_sheet_B), (''4_54_komoditas_kec'', kec_sheet_D)]"

definition files_with_ids :: "(string \<times> xlsx) list" where
  "files_with_ids = [(''data/d_4_54.xlsx'', file_D)]"

definition files_with_failure :: "(string \<times> xlsx) list" where
  "files_with_failure = [(''data/a_4_54.xlsx'', file_A), (''data/c_4_54.xlsx'', file_C)]"

text \<open>What these runs print and return for district 7205, and the first run for district 7299.\<close>

definition failure_out :: "message list" where
  "failure_out = [ProcessingFile ''data/a_4_54.xlsx'', ProcessingFile ''data/c_4_54.xlsx'',
                  ErrorProcessingFile ''data/c_4_54.xlsx'' (SheetNotFound ''4_54_komoditas_kec''),
                  ColumnNotFound ''id_prov'', ColumnNotFoundKec ''id_prov'',
                  ColumnNotFoundKec ''id_kab'', ColumnNotFoundKec ''id_kec'']"

definition failure_result_kec :: frame where
  "failure_result_kec =
     \<lparr>columns = (''kec'', Int64) # map (\<lambda>c. (c, Int64)) columns_to_sum @ [(''SUM'', Int64)],
      rows = [[Num 10, Num 0, Num 0, Num 0, Num 0, Num 0, Num 5, Num 5],
              [Num 20, Num 2, Num 3, Num 4, Num 5, Num 14, Num 15, Num 43]]\<rparr>"

definition ids_out :: "message list" where
  "ids_out = [ProcessingFile ''data/d_4_54.xlsx'', ColumnNotFound ''id_prov'',
              ColumnNotFoundKec ''id_prov'', ColumnNotFoundKec ''id_kab'',
              ColumnNotFoundKec ''id_kec'']"

definition ids_summary_kab :: frame where
  "ids_summary_kab =
     \<lparr>columns = [(''kab'', Object), (''n_rtup'', Int64)], rows = [[Str ''[7205] BGI'', Num 3]]\<rparr>"

definition ids_result_kec :: frame where
  "ids_result_kec =
     \<lparr>columns = (''kec'', Int64) # map (\<lambda>c. (c, Int64)) columns_to_sum @ [(''SUM'', Int64)],
      rows = [[Num 10, Num 1, Num 0, Num 0, Num 0, Num 1, Num 1, Num 3]]\<rparr>"

definition no_data_out :: "message list" where
  "no_data_out = [ProcessingFile ''data/a_4_54.xlsx'', ProcessingFile ''data/b_4_54.xlsx'',
                  NoDataKab 7299 ''4_54'', NoDataKec 7299 ''4_54'']"

definition no_data_result_kec :: frame where
  "no_data_result_kec =
     \<lparr>columns = (''kec'', Int64) # map (\<lambda>c. (c, Int64)) columns_to_sum @ [(''file'', Object)],
      rows = []\<rparr>"












section \<open>Properties of the table operations\<close>

lemma read_row_outside: "c \<notin> set cols \<Longrightarrow> read_row cols cells c = NaN"
proof -
  assume "c \<notin> set cols"
  then have "c \<notin> fst ` set (zip cols cells)"
    by (auto dest: set_zip_leftD)
  then have "map_of (zip cols cells) c = None"
    by (simp add: map_of_eq_None_iff)
  then show ?thesis by (simp add: read_row_def)
qed

lemma read_row_map: "read_row cols (map f cols) c = (if c \<in> set cols then f c else NaN)"
  by (simp add: read_row_def map_of_zip_map)

lemma records_outside: "r \<in> set (records df) \<Longrightarrow> c \<notin> set (names df) \<Longrightarrow> r c = NaN"
  by (auto simp: records_def read_row_outside)

lemma read_row_restrict:
  assumes "r \<in> set (records df)" and "set (names df) \<subseteq> set cols"
  shows "read_row cols (map r cols) = r"
proof
  fix c
  show "read_row cols (map r cols) c = r c"
  proof (cases "c \<in> set cols")
    case True
    then show ?thesis by (simp add: read_row_map)
  next
    case False
    with assms have "r c = NaN" by (auto intro: records_outside)
    with False show ?thesis by (simp add: read_row_map)
  qed
qed

lemma records_DataFrame: "records DataFrame = []"
  by (simp add: records_def DataFrame_def)

lemma records_reindex:
  assumes "set (names df) \<subseteq> set cols"
  shows "map (read_row cols) (map (\<lambda>r. map r cols) (records df)) = records df"
proof -
  have "map (\<lambda>r. read_row cols (map r cols)) (records df) = map (\<lambda>r. r) (records df)"
    by (rule map_cong) (auto simp: read_row_restrict [OF _ assms])
  then show ?thesis by (simp add: comp_def)
qed

lemma records_no_rows: "rows df = [] \<Longrightarrow> records df = []"
  by (simp add: records_def)

lemma records_concat_frames: "records (concat_frames a b) = records a @ records b"
proof -
  let ?cols = "names a @ filter (\<lambda>c. c \<notin> set (names a)) (names b)"
  let ?f = "\<lparr>columns = map (\<lambda>c. (c, concat_dtype a b c)) ?cols,
             rows = map (\<lambda>r. map r ?cols) (records a @ records b)\<rparr>"
  have n: "names ?f = ?cols" by (simp add: names_def comp_def)
  have "records ?f = map (read_row ?cols) (map (\<lambda>r. map r ?cols) (records a))
                     @ map (read_row ?cols) (map (\<lambda>r. map r ?cols) (records b))"
    unfolding records_def [of ?f] n by simp
  also have "\<dots> = records a @ records b"
  proof -
    have "set (names a) \<subseteq> set ?cols" and "set (names b) \<subseteq> set ?cols" by auto
    then show ?thesis by (simp only: records_reindex)
  qed
  finally have "records ?f = records a @ records b" .
  then show ?thesis
    by (simp add: concat_frames_def Let_def records_no_rows)
qed


lemma length_records: "length (records df) = length (rows df)"
  by (simp add: records_def)

lemma names_set_column:
  "names (set_column df c d vs) = (if c \<in> set (names df) then names df else names df @ [c])"
  by (simp add: set_column_def Let_def names_def comp_def)

lemma records_set_column:
  "records (set_column df c d vs) = map (\<lambda>(r, v). r(c := v)) (zip (records df) vs)"
proof -
  let ?cols = "if c \<in> set (names df) then names df else names df @ [c]"
  have "read_row ?cols (map (r(c := v)) ?cols) = r(c := v)" if "r \<in> set (records df)" for r v
  proof
    fix x
    show "read_row ?cols (map (r(c := v)) ?cols) x = (r(c := v)) x"
      using records_outside [OF that, of x] by (auto simp: read_row_map)
  qed
  then have "map (\<lambda>(r, v). read_row ?cols (map (r(c := v)) ?cols)) (zip (records df) vs)
             = map (\<lambda>(r, v). r(c := v)) (zip (records df) vs)"
    by (intro map_cong refl) (auto dest: set_zip_leftD)
  then show ?thesis
    unfolding records_def [of "set_column df c d vs"] names_set_column
    by (simp add: set_column_def Let_def comp_def case_prod_unfold)
qed

lemma records_set_scalar: "records (set_scalar df c d v) = map (\<lambda>r. r(c := v)) (records df)"
proof -
  have "zip rs (replicate (length rs) v) = map (\<lambda>r. (r, v)) rs" for rs :: "row list"
    by (induction rs) auto
  then show ?thesis
    by (simp add: set_scalar_def records_set_column length_records [symmetric] comp_def)
qed

lemma names_set_scalar:
  "names (set_scalar df c d v) = (if c \<in> set (names df) then names df else names df @ [c])"
  by (simp add: set_scalar_def names_set_column)

lemma filter_kab_Inr:
  assumes "filter_kab df kab_code = Inr df'"
  shows "records df' = filter (\<lambda>r. r ''kab'' = Num kab_code) (records df)"
    and "columns df' = columns df" and "names df' = names df"
  using assms by (auto simp: filter_kab_def records_def names_def filter_map comp_def split: if_splits)

subsection \<open>Sums that are exact\<close>
















subsection \<open>Columns that are exact\<close>










lemma sum_columns_length: "sum_columns dt rs cs = Inr vs \<Longrightarrow> length vs = length cs"
  by (induction cs arbitrary: vs) (auto split: sum.splits)

lemma sum_groups_shape:
  "sum_groups dt rs key cs ks = Inr gs \<Longrightarrow> map hd gs = ks \<and> (\<forall>g \<in> set gs. length g = Suc (length cs))"
  by (induction ks arbitrary: gs) (auto split: sum.splits simp: sum_columns_length)

lemma groupby_sum_names: "groupby_sum df key cs = Inr g \<Longrightarrow> names g = key # cs"
  by (auto simp: groupby_sum_def names_def comp_def split: if_splits list.splits sum.splits)

lemma groupby_sum_keys:
  assumes "groupby_sum df key cs = Inr g"
  shows "map (\<lambda>r. r key) (records g) = group_keys df key"
proof -
  from assms obtain gs where gs: "sum_groups (dtype_of df) (records df) key cs (group_keys df key) = Inr gs"
    and g: "rows g = gs"
    by (auto simp: groupby_sum_def split: if_splits list.splits sum.splits)
  have "read_row (key # cs) x key = hd x" if "length x = Suc (length cs)" for x
    using that by (cases x) (simp_all add: read_row_def)
  with sum_groups_shape [OF gs] have "map (\<lambda>x. read_row (key # cs) x key) gs = group_keys df key"
    by (metis (mono_tags, lifting) map_eq_conv)
  then show ?thesis
    by (simp add: records_def groupby_sum_names [OF assms] g comp_def)
qed



lemma try_file_eq:
  "try_file file wb kab_code table_prefix result_kab result_kec =
     (foldl concat_frames result_kab (kab_part wb kab_code table_prefix),
      foldl concat_frames result_kec (kec_part file wb kab_code table_prefix),
      file_error file wb kab_code table_prefix)"
  by (simp add: try_file_def kab_part_def kec_part_def file_error_def Let_def split: sum.splits)

lemma loop_files_eq:
  "loop_files files kab_code table_prefix (result_kab, result_kec, out) =
     (foldl concat_frames result_kab (concat (map (\<lambda>(file, wb). kab_part wb kab_code table_prefix) files)),
      foldl concat_frames result_kec (concat (map (\<lambda>(file, wb). kec_part file wb kab_code table_prefix) files)),
      out @ concat (map (\<lambda>(file, wb). file_messages file wb kab_code table_prefix) files))"
proof (induction files arbitrary: result_kab result_kec out)
  case Nil
  then show ?case by simp
next
  case (Cons fw files)
  obtain path wb where fw: "fw = (path, wb)" by (cases fw)
  show ?case
    unfolding fw
    by (cases "file_error path wb kab_code table_prefix")
       (simp_all add: try_file_eq Cons.IH file_messages_def)
qed

lemma records_foldl_concat:
  "records (foldl concat_frames a fs) = records a @ concat (map records fs)"
  by (induction fs arbitrary: a) (simp_all add: records_concat_frames)


lemma load_kab_records:
  "concat (map records (kab_part wb kab_code table_prefix))
     = sheet_rows wb (table_prefix @ ''_komoditas_kab'') kab_code"
proof (cases "read_excel wb (table_prefix @ ''_komoditas_kab'')")
  case (Inl e)
  then show ?thesis by (simp add: kab_part_def load_kab_def sheet_rows_def)
next
  case (Inr df)
  show ?thesis
  proof (cases "''kab'' \<in> set (names df)")
    case True
    with Inr show ?thesis
      by (simp add: kab_part_def load_kab_def sheet_rows_def filter_kab_def records_def names_def
          filter_map comp_def)
  next
    case False
    then have "filter (\<lambda>r. r ''kab'' = Num kab_code) (records df) = []"
      by (auto simp: filter_empty_conv dest: records_outside)
    with Inr False show ?thesis
      by (simp add: kab_part_def load_kab_def sheet_rows_def filter_kab_def)
  qed
qed


lemma records_result_kab:
  "records (result_kab_of files kab_code table_prefix) = kab_rows files kab_code table_prefix"
proof -
  have "concat (map records (concat (map (\<lambda>(file, wb). kab_part wb kab_code table_prefix) files)))
        = kab_rows files kab_code table_prefix"
    by (induction files) (auto simp: kab_rows_def load_kab_records)
  then show ?thesis
    by (simp add: result_kab_of_def loop_files_eq records_foldl_concat records_DataFrame)
qed


lemma names_sum_frame_kab: "names (sum_frame_kab df) = row_to_sum df"
  by (simp add: sum_frame_kab_def names_def comp_def)

lemma records_sum_frame_kab: "records (sum_frame_kab df) = [sum_record df]"
proof -
  have "read_row (row_to_sum df) (sum_row_kab df) = sum_record df"
    by (rule ext) (simp add: sum_row_kab_def read_row_map sum_record_def)
  then show ?thesis
    by (simp add: records_def names_sum_frame_kab) (simp add: sum_frame_kab_def)
qed

lemma attach_ids_kab_eq:
  assumes "records result_kab \<noteq> []"
  shows "attach_ids_kab cols result_kab summary out =
           Inr (foldl (\<lambda>s col. attach_one result_kab col s) summary cols,
                out @ concat (map (missing_one result_kab) cols))"
proof (induction cols arbitrary: summary out)
  case Nil
  then show ?case by simp
next
  case (Cons col cols)
  from assms obtain r rs where "records result_kab = r # rs"
    by (cases "records result_kab") auto
  then have "iloc0 result_kab col = Inr (hd (records result_kab) col)"
    by (simp add: iloc0_def)
  then show ?case
    by (simp add: Cons.IH attach_one_def missing_one_def)
qed

lemma summarize_kab_eq:
  "summarize_kab result_kab kab_code table_prefix out =
     (if frame_empty result_kab then Inr (None, out @ [NoDataKab kab_code table_prefix])
      else Inr (Some (attach_one result_kab ''id_kab'' (attach_one result_kab ''id_prov'' (sum_frame_kab result_kab))),
                out @ missing_one result_kab ''id_prov'' @ missing_one result_kab ''id_kab''))"
proof (cases "frame_empty result_kab")
  case True
  then show ?thesis by (simp add: summarize_kab_def)
next
  case False
  then have "records result_kab \<noteq> []"
    by (simp add: frame_empty_def records_def)
  from attach_ids_kab_eq [OF this] False show ?thesis
    by (simp add: summarize_kab_def)
qed

lemma strip_id_consts: "strip_id ''id_prov'' = ''prov''" "strip_id ''id_kab'' = ''kab''"
  "strip_id ''id_kec'' = ''kec''"
  by simp_all

lemma kec_not_measure: "''kec'' \<notin> set columns_to_sum" "''file'' \<notin> set columns_to_sum"
  "''SUM'' \<notin> set columns_to_sum" "''id_prov'' \<notin> set columns_to_sum"
  "''id_kab'' \<notin> set columns_to_sum" "''id_kec'' \<notin> set columns_to_sum"
  by (simp_all add: columns_to_sum_def)

lemma attach_ids_kec_grouped:
  assumes "names g = ''kec'' # columns_to_sum"
  shows "attach_ids_kec [''id_prov'', ''id_kab'', ''id_kec''] g out =
           (g, out @ [ColumnNotFoundKec ''id_prov'', ColumnNotFoundKec ''id_kab'',
                      ColumnNotFoundKec ''id_kec''])"
  using assms by (simp add: kec_not_measure)

lemma row_sums_length: "row_sums d rs cs = Inr vs \<Longrightarrow> length vs = length rs"
  by (induction rs arbitrary: vs) (auto split: sum.splits)



lemma summarize_kec_Inr:
  assumes "summarize_kec result_kec kab_code table_prefix out = Inr (rk, out')"
    and "\<not> frame_empty result_kec"
  obtains g totals where "groupby_sum result_kec ''kec'' columns_to_sum = Inr g"
    and "row_sums (row_sum_dtype g columns_to_sum) (records g) columns_to_sum = Inr totals"
    and "rk = set_column g ''SUM'' (row_sum_dtype g columns_to_sum) totals"
    and "out' = out @ [ColumnNotFoundKec ''id_prov'', ColumnNotFoundKec ''id_kab'',
                       ColumnNotFoundKec ''id_kec'']"
proof -
  from assms obtain g where g: "groupby_sum result_kec ''kec'' columns_to_sum = Inr g"
    by (auto simp: summarize_kec_def split: sum.splits)
  note a = attach_ids_kec_grouped [OF groupby_sum_names [OF g]]
  from assms g a obtain totals where
    "row_sums (row_sum_dtype g columns_to_sum) (records g) columns_to_sum = Inr totals"
    and "rk = set_column g ''SUM'' (row_sum_dtype g columns_to_sum) totals"
    and "out' = out @ [ColumnNotFoundKec ''id_prov'', ColumnNotFoundKec ''id_kab'',
                       ColumnNotFoundKec ''id_kec'']"
    by (auto simp: summarize_kec_def split: sum.splits)
  with g that show thesis by blast
qed

lemma group_keys_sorted: "sorted (map cell_key (group_keys df key))"
  by (simp add: group_keys_def)

lemma group_keys_distinct: "distinct (group_keys df key)"
  by (simp add: group_keys_def)


lemma cell_key_inj: "cell_key a = cell_key b \<Longrightarrow> a = b"
proof (cases a; cases b)
  fix s t
  assume "a = Str s" "b = Str t" "cell_key a = cell_key b"
  then have "map (\<lambda>ch. int (of_char ch)) s = map (\<lambda>ch. int (of_char ch)) t" by simp
  moreover have "inj (\<lambda>ch. int (of_char ch))"
    by (rule injI) simp
  ultimately have "s = t"
    by (simp add: inj_map_eq_map)
  with \<open>a = Str s\<close> \<open>b = Str t\<close> show "a = b" by simp
next
  fix p q
  assume "a = Flt p" "b = Flt q" "cell_key a = cell_key b"
  then have "quotient_of p = quotient_of q"
    by (simp add: prod_eq_iff)
  then have "p = q" by (simp add: quotient_of_inject)
  with \<open>a = Flt p\<close> \<open>b = Flt q\<close> show "a = b" by simp
qed auto

lemma group_keys_strict: "sorted_wrt (<) (map cell_key (group_keys df key))"
proof -
  have "distinct (map cell_key (group_keys df key))"
    by (simp add: distinct_map group_keys_distinct inj_on_def) (blast dest: cell_key_inj)
  with group_keys_sorted show ?thesis
    by (simp add: strict_sorted_iff)
qed

lemma process_files_eq:
  "process_files files kab_code table_prefix =
     (if files = [] then Inr ([NoFilesFound table_prefix], None, None)
      else
        (case summarize_kab (result_kab_of files kab_code table_prefix) kab_code table_prefix
                (loop_out files kab_code table_prefix) of
           Inl e \<Rightarrow> Inl e
         | Inr (summary_kab, out1) \<Rightarrow>
             (case summarize_kec (result_kec_of files kab_code table_prefix) kab_code table_prefix out1 of
                Inl e \<Rightarrow> Inl e
              | Inr (result_kec', out2) \<Rightarrow> Inr (out2, summary_kab, Some result_kec'))))"
  unfolding process_files_def result_kab_of_def result_kec_of_def loop_out_def
  by (cases "loop_files files kab_code table_prefix (DataFrame, DataFrame, [])")
     (simp split: sum.split prod.split)

lemma process_files_Inr:
  assumes "process_files files kab_code table_prefix = Inr (out, sk, Some rk)"
  obtains out1 where "files \<noteq> []"
    and "summarize_kab (result_kab_of files kab_code table_prefix) kab_code table_prefix
           (loop_out files kab_code table_prefix) = Inr (sk, out1)"
    and "summarize_kec (result_kec_of files kab_code table_prefix) kab_code table_prefix out1 = Inr (rk, out)"
  using assms unfolding process_files_eq
  by (auto split: if_splits sum.splits prod.splits)

lemma summarize_kec_empty:
  "frame_empty result_kec \<Longrightarrow>
   summarize_kec result_kec kab_code table_prefix out = Inr (result_kec, out @ [NoDataKec kab_code table_prefix])"
  by (simp add: summarize_kec_def)

lemma map_upd_other:
  "c \<noteq> c' \<Longrightarrow> length vs = length rs \<Longrightarrow>
   map (\<lambda>r. r c) (map (\<lambda>(r, v). r(c' := v)) (zip rs vs)) = map (\<lambda>r. r c) rs"
  by (induction rs vs rule: list_induct2') auto

lemma process_files_cases:
  assumes "process_files files kab_code table_prefix = Inr (out, sk, rko)" and "files \<noteq> []"
  obtains rk out1 where "rko = Some rk"
    and "summarize_kab (result_kab_of files kab_code table_prefix) kab_code table_prefix
           (loop_out files kab_code table_prefix) = Inr (sk, out1)"
    and "summarize_kec (result_kec_of files kab_code table_prefix) kab_code table_prefix out1 = Inr (rk, out)"
  using assms unfolding process_files_eq
  by (auto split: if_splits sum.splits prod.splits)


lemma records_attach_one:
  "records (attach_one result_kab col summary) =
     (if col \<in> set (names result_kab)
      then map (\<lambda>r. r(strip_id col := hd (records result_kab) col)) (records summary)
      else records summary)"
  by (simp add: attach_one_def records_set_scalar)

lemma names_attach_one:
  "names (attach_one result_kab col summary) =
     (if col \<in> set (names result_kab) \<and> strip_id col \<notin> set (names summary)
      then names summary @ [strip_id col] else names summary)"
  by (simp add: attach_one_def names_set_scalar)



lemma loop_out_messages:
  "m \<in> set (loop_out files kab_code table_prefix) \<Longrightarrow>
   (\<exists>f. m = ProcessingFile f) \<or> (\<exists>f e. m = ErrorProcessingFile f e)"
  by (auto simp: loop_out_def loop_files_eq file_messages_def split: option.splits)

lemma summarize_kec_messages:
  assumes "summarize_kec result_kec kab_code table_prefix out1 = Inr (rk, out)"
  shows "ColumnNotFound col \<in> set out \<longleftrightarrow> ColumnNotFound col \<in> set out1"
proof (cases "frame_empty result_kec")
  case True
  with assms show ?thesis by (auto simp: summarize_kec_empty)
next
  case False
  with assms show ?thesis by (auto elim!: summarize_kec_Inr)
qed


lemma records_summary:
  "records (attach_one acc ''id_kab'' (attach_one acc ''id_prov'' (sum_frame_kab acc)))
     = [summary_record acc]"
proof -
  have "(sum_record acc)(''prov'' := v) = (\<lambda>c. if c = ''prov'' then v else sum_record acc c)" for v
    by (rule ext) simp
  moreover have "f(''kab'' := v) = (\<lambda>c. if c = ''kab'' then v else f c)" for v and f :: row
    by (rule ext) simp
  ultimately show ?thesis
    unfolding records_attach_one records_sum_frame_kab strip_id_consts
    by (auto simp: summary_record_def fun_eq_iff)
qed

lemma names_summary:
  "names (attach_one acc ''id_kab'' (attach_one acc ''id_prov'' (sum_frame_kab acc))) =
     row_to_sum acc
     @ (if ''id_prov'' \<in> set (names acc) \<and> ''prov'' \<notin> set (row_to_sum acc) then [''prov''] else [])
     @ (if ''id_kab'' \<in> set (names acc) \<and> ''kab'' \<notin> set (row_to_sum acc) then [''kab''] else [])"
  by (simp add: names_attach_one names_sum_frame_kab strip_id_consts)

lemma summarize_kab_Some:
  assumes "summarize_kab acc kab_code table_prefix out0 = Inr (Some sk, out1)"
  shows "\<not> frame_empty acc"
    and "sk = attach_one acc ''id_kab'' (attach_one acc ''id_prov'' (sum_frame_kab acc))"
    and "out1 = out0 @ missing_one acc ''id_prov'' @ missing_one acc ''id_kab''"
  using assms by (auto simp: summarize_kab_eq split: if_splits)


subsection \<open>The sub-district stage\<close>

lemma load_kec_Inr:
  assumes "load_kec path wb kab_code table_prefix = Inr s"
  obtains df g where "records df = sheet_rows wb (table_prefix @ ''_komoditas_kec'') kab_code"
    and "groupby_sum df ''kec'' columns_to_sum = Inr g"
    and "s = set_scalar g ''file'' Object (Str (basename path))"
proof -
  from assms obtain df0 df g where r: "read_excel wb (table_prefix @ ''_komoditas_kec'') = Inr df0"
    and f: "filter_kab df0 kab_code = Inr df"
    and g: "groupby_sum df ''kec'' columns_to_sum = Inr g"
    and s: "s = set_scalar g ''file'' Object (Str (basename path))"
    by (auto simp: load_kec_def split: sum.splits)
  have "records df = sheet_rows wb (table_prefix @ ''_komoditas_kec'') kab_code"
    by (simp add: sheet_rows_def r filter_kab_Inr(1) [OF f])
  with g s that show thesis by blast
qed

lemma group_keys_no_rows: "records df = [] \<Longrightarrow> group_keys df key = []"
  by (simp add: group_keys_def)

lemma load_kec_no_rows:
  assumes "load_kec path wb kab_code table_prefix = Inr s"
    and "sheet_rows wb (table_prefix @ ''_komoditas_kec'') kab_code = []"
  shows "records s = []"
proof -
  from assms(1) obtain df g where df: "records df = sheet_rows wb (table_prefix @ ''_komoditas_kec'') kab_code"
    and g: "groupby_sum df ''kec'' columns_to_sum = Inr g"
    and s: "s = set_scalar g ''file'' Object (Str (basename path))"
    by (rule load_kec_Inr)
  from groupby_sum_keys [OF g] df assms(2) have "records g = []"
    by (simp add: group_keys_no_rows)
  then show ?thesis by (simp add: s records_set_scalar)
qed

lemma records_result_kec:
  "records (result_kec_of files kab_code table_prefix) =
     concat (map records (concat (map (\<lambda>(file, wb). kec_part file wb kab_code table_prefix) files)))"
  by (simp add: result_kec_of_def loop_files_eq records_foldl_concat records_DataFrame)





































lemma summarize_kab_out:
  "summarize_kab acc kab_code table_prefix out0 = Inr (sk, out1) \<Longrightarrow> set out0 \<subseteq> set out1"
  by (auto simp: summarize_kab_eq split: if_splits)

lemma summarize_kec_out:
  assumes "summarize_kec result_kec kab_code table_prefix out1 = Inr (rk, out)"
  shows "set out1 \<subseteq> set out"
proof (cases "frame_empty result_kec")
  case True
  with assms show ?thesis by (auto simp: summarize_kec_empty)
next
  case False
  with assms show ?thesis by (auto elim!: summarize_kec_Inr)
qed

lemma failures_logged:
  assumes "process_files files kab_code table_prefix = Inr (out, sk, rk)"
    and "(path, wb) \<in> set files"
  shows "ProcessingFile path \<in> set out"
    and "file_error path wb kab_code table_prefix = Some e \<Longrightarrow> ErrorProcessingFile path e \<in> set out"
proof -
  from assms(2) have "files \<noteq> []" by auto
  with assms(1) obtain rk' out1 where
    a: "summarize_kab (result_kab_of files kab_code table_prefix) kab_code table_prefix
           (loop_out files kab_code table_prefix) = Inr (sk, out1)"
    and k: "summarize_kec (result_kec_of files kab_code table_prefix) kab_code table_prefix out1 = Inr (rk', out)"
    by (rule process_files_cases)
  from summarize_kab_out [OF a] summarize_kec_out [OF k]
  have sub: "set (loop_out files kab_code table_prefix) \<subseteq> set out" by blast
  have "set (file_messages path wb kab_code table_prefix) \<subseteq> set (loop_out files kab_code table_prefix)"
    using assms(2) by (auto simp: loop_out_def loop_files_eq)
  with sub have m: "set (file_messages path wb kab_code table_prefix) \<subseteq> set out" by blast
  then show "ProcessingFile path \<in> set out"
    by (simp add: file_messages_def)
  show "ErrorProcessingFile path e \<in> set out" if "file_error path wb kab_code table_prefix = Some e"
    using m that by (simp add: file_messages_def)
qed

lemma summarize_kab_returns:
  "\<exists>sk out1. summarize_kab acc kab_code table_prefix out0 = Inr (sk, out1)"
  by (simp add: summarize_kab_eq)

section \<open>The claims\<close>

subsection \<open>The example runs\<close>

lemma example_run:
  "process_files example_files 7205 ''4_54'' =
     Inr (example_out, Some example_summary_kab, Some example_result_kec)"
  by code_simp

lemma example_result_kec_not_empty: "\<not> frame_empty example_result_kec"
  by (simp add: frame_empty_def example_result_kec_def)





lemma example_no_rows:
  "kab_rows example_files 7299 ''4_54'' = []" "all_kec_rows example_files 7299 ''4_54'' = []"
proof -
  have "length (kab_rows example_files 7299 ''4_54'') = 0"
    and "length (all_kec_rows example_files 7299 ''4_54'') = 0"
    by code_simp+
  then show "kab_rows example_files 7299 ''4_54'' = []" "all_kec_rows example_files 7299 ''4_54'' = []"
    by simp_all
qed

subsection \<open>The sub-district sums\<close>




subsection \<open>The district summary\<close>




subsection \<open>The total column\<close>




subsection \<open>A file that fails\<close>

text \<open>
  C4, at an input where the code departs from it. The second workbook has no sub-district
  sheet: its processing fails, the failure is printed with the file name and the error, and
  the run goes on and returns. The sub-district summary holds the sums over the first
  workbook alone, but the district summary counts the matching district row of the failed
  workbook as well: \<^verbatim>\<open>n_rtup\<close> is 18, while its sum over the district rows of the
  workbook that did not fail is 15.
\<close>

theorem failed_file_counted:
  "process_files files_with_failure 7205 ''4_54'' =
     Inr (failure_out, Some example_summary_kab, Some failure_result_kec)
   \<and> file_error ''data/a_4_54.xlsx'' file_A 7205 ''4_54'' = None
   \<and> file_error ''data/c_4_54.xlsx'' file_C 7205 ''4_54'' = Some (SheetNotFound ''4_54_komoditas_kec'')
   \<and> column_cells example_summary_kab ''n_rtup'' = [Num 18]
   \<and> column_sum (kab_rows [(''data/a_4_54.xlsx'', file_A)] 7205 ''4_54'') ''n_rtup'' = 15"
  by code_simp

text \<open>
  C5, at an input where the code departs from it. On the workbook without a sub-district
  sheet the \<^verbatim>\<open>try\<close> body raises when it reads that sheet, after line 65 has appended the
  matching district row: the district accumulator is no longer the empty frame it was, the
  sub-district accumulator is unchanged.
\<close>

theorem failed_file_accumulated:
  "try_file ''data/c_4_54.xlsx'' file_C 7205 ''4_54'' DataFrame DataFrame =
     (\<lparr>columns = [(''kab'', Int64), (''id_kab'', Object), (''n_rtup'', Int64), (''ID'', Int64)],
       rows = [[Num 7205, Str ''[7205] BGI'', Num 3, Num 4]]\<rparr>,
      DataFrame,
      Some (SheetNotFound ''4_54_komoditas_kec''))"
  by code_simp

subsection \<open>No data\<close>

text \<open>
  C6. No row of a district sheet and no row of a sub-district sheet of any file matches the
  requested code. With no file at all, the call returns the pair (absent, absent) after
  one message; with files, it returns an absent district summary and an empty sub-district
  table, and prints that no data was found for either. It never raises.
\<close>

theorem no_data:
  assumes "kab_rows files kab_code table_prefix = []"
    and "all_kec_rows files kab_code table_prefix = []"
  shows "if files = [] then process_files files kab_code table_prefix = Inr ([NoFilesFound table_prefix], None, None)
         else \<exists>out rk. process_files files kab_code table_prefix = Inr (out, None, Some rk)
                \<and> frame_empty rk
                \<and> NoDataKab kab_code table_prefix \<in> set out
                \<and> NoDataKec kab_code table_prefix \<in> set out"
proof (cases "files = []")
  case True
  then show ?thesis by (simp add: process_files_def)
next
  case False
  let ?acc = "result_kab_of files kab_code table_prefix"
  let ?kec = "result_kec_of files kab_code table_prefix"
  from assms(1) have "records ?acc = []" by (simp add: records_result_kab)
  then have a: "frame_empty ?acc" by (simp add: frame_empty_def records_def)
  have "records s = []" if "s \<in> set (concat (map (\<lambda>(file, wb). kec_part file wb kab_code table_prefix) files))" for s
  proof -
    from that obtain path wb where fw: "(path, wb) \<in> set files"
      and s: "load_kec path wb kab_code table_prefix = Inr s"
      by (auto simp: kec_part_def split: sum.splits)
    from fw assms(2) have "sheet_rows wb (table_prefix @ ''_komoditas_kec'') kab_code = []"
      by (auto simp: all_kec_rows_def)
    with s show ?thesis by (rule load_kec_no_rows)
  qed
  then have "records ?kec = []"
    by (simp add: records_result_kec)
  then have k: "frame_empty ?kec" by (simp add: frame_empty_def records_def)
  from False a k show ?thesis
    by (simp add: process_files_eq summarize_kab_eq summarize_kec_empty)
qed

theorem no_data_witness:
  "kab_rows example_files 7299 ''4_54'' = [] \<and> all_kec_rows example_files 7299 ''4_54'' = []
   \<and> process_files example_files 7299 ''4_54'' = Inr (no_data_out, None, Some no_data_result_kec)
   \<and> frame_empty no_data_result_kec
   \<and> (if example_files = []
       then process_files example_files 7299 ''4_54'' = Inr ([NoFilesFound ''4_54''], None, None)
       else \<exists>out rk. process_files example_files 7299 ''4_54'' = Inr (out, None, Some rk)
              \<and> frame_empty rk
              \<and> NoDataKab 7299 ''4_54'' \<in> set out
              \<and> NoDataKec 7299 ''4_54'' \<in> set out)"
proof -
  have "process_files example_files 7299 ''4_54'' = Inr (no_data_out, None, Some no_data_result_kec)"
    by code_simp
  moreover have "frame_empty no_data_result_kec"
    by (simp add: frame_empty_def no_data_result_kec_def)
  ultimately show ?thesis
    using no_data [OF example_no_rows] example_no_rows by simp
qed

subsection \<open>The identifiers of the district\<close>

text \<open>
  C7. Whenever the district summary is present, it is one row and the accumulated district
  rows have a first row, the first matching row in the order of the files and of the rows
  in them. For \<^verbatim>\<open>id_prov\<close> (and likewise \<^verbatim>\<open>id_kab\<close>): when it is a column of the
  accumulated rows, the summary has a column \<^verbatim>\<open>prov\<close> holding the \<^verbatim>\<open>id_prov\<close> of that
  first row as it is, and nothing is printed; otherwise its absence is printed and nothing
  is attached, so that the summary has a column \<^verbatim>\<open>prov\<close> only if \<^verbatim>\<open>prov\<close> itself was
  one of the summed columns, and then it holds the sum of line 89. No step of lines 80--98 raises (\<open>summarize_kab_returns\<close>).
\<close>

theorem district_identifiers:
  assumes "process_files files kab_code table_prefix = Inr (out, Some sk, result_kec)"
  shows "\<exists>r r0 rest. records sk = [r] \<and> kab_rows files kab_code table_prefix = r0 # rest
           \<and> (if ''id_prov'' \<in> set (names (result_kab_of files kab_code table_prefix))
               then ''prov'' \<in> set (names sk) \<and> r ''prov'' = r0 ''id_prov''
                    \<and> ColumnNotFound ''id_prov'' \<notin> set out
               else ColumnNotFound ''id_prov'' \<in> set out
                    \<and> (if ''prov'' \<in> set (row_to_sum (result_kab_of files kab_code table_prefix))
                        then ''prov'' \<in> set (names sk)
                             \<and> r ''prov'' = sum_num (dtype_of (result_kab_of files kab_code table_prefix) ''prov'')
                                            (map (\<lambda>r. r ''prov'') (kab_rows files kab_code table_prefix))
                        else ''prov'' \<notin> set (names sk) \<and> r ''prov'' = NaN))
           \<and> (if ''id_kab'' \<in> set (names (result_kab_of files kab_code table_prefix))
               then ''kab'' \<in> set (names sk) \<and> r ''kab'' = r0 ''id_kab''
                    \<and> ColumnNotFound ''id_kab'' \<notin> set out
               else ColumnNotFound ''id_kab'' \<in> set out
                    \<and> (if ''kab'' \<in> set (row_to_sum (result_kab_of files kab_code table_prefix))
                        then ''kab'' \<in> set (names sk)
                             \<and> r ''kab'' = sum_num (dtype_of (result_kab_of files kab_code table_prefix) ''kab'')
                                           (map (\<lambda>r. r ''kab'') (kab_rows files kab_code table_prefix))
                        else ''kab'' \<notin> set (names sk) \<and> r ''kab'' = NaN))"
proof -
  let ?acc = "result_kab_of files kab_code table_prefix"
  let ?rows = "kab_rows files kab_code table_prefix"
  from assms have "files \<noteq> []"
    by (auto simp: process_files_eq)
  with assms obtain rk out1 where
    a: "summarize_kab ?acc kab_code table_prefix (loop_out files kab_code table_prefix) = Inr (Some sk, out1)"
    and k: "summarize_kec (result_kec_of files kab_code table_prefix) kab_code table_prefix out1 = Inr (rk, out)"
    by (rule process_files_cases)
  note s = summarize_kab_Some [OF a]
  from s(1) have "records ?acc \<noteq> []"
    by (simp add: frame_empty_def records_def)
  then obtain r0 rest where rows: "?rows = r0 # rest"
    by (cases ?rows) (auto simp: records_result_kab)
  then have hd: "hd (records ?acc) = r0"
    by (simp add: records_result_kab)
  have r: "records sk = [summary_record ?acc]"
    unfolding s(2) by (rule records_summary)
  have nm: "names sk = row_to_sum ?acc
     @ (if ''id_prov'' \<in> set (names ?acc) \<and> ''prov'' \<notin> set (row_to_sum ?acc) then [''prov''] else [])
     @ (if ''id_kab'' \<in> set (names ?acc) \<and> ''kab'' \<notin> set (row_to_sum ?acc) then [''kab''] else [])"
    unfolding s(2) by (rule names_summary)
  have msg: "ColumnNotFound col \<in> set out \<longleftrightarrow>
               (col = ''id_prov'' \<or> col = ''id_kab'') \<and> col \<notin> set (names ?acc)" for col
    unfolding summarize_kec_messages [OF k] s(3)
    by (auto simp: missing_one_def dest: loop_out_messages)
  have prov: "if ''id_prov'' \<in> set (names ?acc)
               then ''prov'' \<in> set (names sk) \<and> summary_record ?acc ''prov'' = r0 ''id_prov''
                    \<and> ColumnNotFound ''id_prov'' \<notin> set out
               else ColumnNotFound ''id_prov'' \<in> set out
                    \<and> (if ''prov'' \<in> set (row_to_sum ?acc)
                        then ''prov'' \<in> set (names sk)
                             \<and> summary_record ?acc ''prov'' = sum_num (dtype_of ?acc ''prov'') (map (\<lambda>r. r ''prov'') ?rows)
                        else ''prov'' \<notin> set (names sk) \<and> summary_record ?acc ''prov'' = NaN)"
    by (simp add: nm msg summary_record_def sum_record_def records_result_kab rows)
  have kab: "if ''id_kab'' \<in> set (names ?acc)
               then ''kab'' \<in> set (names sk) \<and> summary_record ?acc ''kab'' = r0 ''id_kab''
                    \<and> ColumnNotFound ''id_kab'' \<notin> set out
               else ColumnNotFound ''id_kab'' \<in> set out
                    \<and> (if ''kab'' \<in> set (row_to_sum ?acc)
                        then ''kab'' \<in> set (names sk)
                             \<and> summary_record ?acc ''kab'' = sum_num (dtype_of ?acc ''kab'') (map (\<lambda>r. r ''kab'') ?rows)
                        else ''kab'' \<notin> set (names sk) \<and> summary_record ?acc ''kab'' = NaN)"
    by (simp add: nm msg summary_record_def sum_record_def records_result_kab rows)
  from r rows prov kab show ?thesis by blast
qed

theorem district_identifiers_witness:
  "process_files example_files 7205 ''4_54'' =
     Inr (example_out, Some example_summary_kab, Some example_result_kec)
   \<and> (\<exists>r r0 rest. records example_summary_kab = [r] \<and> kab_rows example_files 7205 ''4_54'' = r0 # rest
           \<and> (if ''id_prov'' \<in> set (names (result_kab_of example_files 7205 ''4_54''))
               then ''prov'' \<in> set (names example_summary_kab) \<and> r ''prov'' = r0 ''id_prov''
                    \<and> ColumnNotFound ''id_prov'' \<notin> set example_out
               else ColumnNotFound ''id_prov'' \<in> set example_out
                    \<and> (if ''prov'' \<in> set (row_to_sum (result_kab_of example_files 7205 ''4_54''))
                        then ''prov'' \<in> set (names example_summary_kab)
                             \<and> r ''prov'' = sum_num (dtype_of (result_kab_of example_files 7205 ''4_54'') ''prov'')
                                            (map (\<lambda>r. r ''prov'') (kab_rows example_files 7205 ''4_54''))
                        else ''prov'' \<notin> set (names example_summary_kab) \<and> r ''prov'' = NaN))
           \<and> (if ''id_kab'' \<in> set (names (result_kab_of example_files 7205 ''4_54''))
               then ''kab'' \<in> set (names example_summary_kab) \<and> r ''kab'' = r0 ''id_kab''
                    \<and> ColumnNotFound ''id_kab'' \<notin> set example_out
               else ColumnNotFound ''id_kab'' \<in> set example_out
                    \<and> (if ''kab'' \<in> set (row_to_sum (result_kab_of example_files 7205 ''4_54''))
                        then ''kab'' \<in> set (names example_summary_kab)
                             \<and> r ''kab'' = sum_num (dtype_of (result_kab_of example_files 7205 ''4_54'') ''kab'')
                                           (map (\<lambda>r. r ''kab'') (kab_rows example_files 7205 ''4_54''))
                        else ''kab'' \<notin> set (names example_summary_kab) \<and> r ''kab'' = NaN)))
   \<and> names (result_kab_of example_files 7205 ''4_54'') = [''kab'', ''id_kab'', ''n_rtup'', ''ID'']
   \<and> column_cells example_summary_kab ''kab'' = [Str ''[7205] BANGGAI'']
   \<and> column_cells example_summary_kab ''prov'' = [NaN]"
proof -
  have "names (result_kab_of example_files 7205 ''4_54'') = [''kab'', ''id_kab'', ''n_rtup'', ''ID'']"
    and "column_cells example_summary_kab ''kab'' = [Str ''[7205] BANGGAI'']"
    and "column_cells example_summary_kab ''prov'' = [NaN]"
    by code_simp+
  with district_identifiers [OF example_run] example_run
  show ?thesis by blast
qed

subsection \<open>The identifiers of the sub-districts\<close>

text \<open>
  C8, at an input where the code departs from it. The sub-district sheet of the workbook
  has the columns \<^verbatim>\<open>id_prov\<close>, \<^verbatim>\<open>id_kab\<close> and \<^verbatim>\<open>id_kec\<close>. Lines 72 and 105 keep
  \<^verbatim>\<open>kec\<close> and the six measure columns only, so the loop of lines 108--113 finds none of
  the three: it prints that each is missing, and the summary has no column \<^verbatim>\<open>prov\<close>,
  no column \<^verbatim>\<open>kab\<close>, and in \<^verbatim>\<open>kec\<close> the number of the code, not a text.
\<close>

theorem identifiers_never_attached:
  "process_files files_with_ids 7205 ''4_54'' = Inr (ids_out, Some ids_summary_kab, Some ids_result_kec)
   \<and> set [''id_prov'', ''id_kab'', ''id_kec''] \<subseteq> set (names kec_sheet_D)
   \<and> set [ColumnNotFoundKec ''id_prov'', ColumnNotFoundKec ''id_kab'', ColumnNotFoundKec ''id_kec'']
       \<subseteq> set ids_out
   \<and> names ids_result_kec = ''kec'' # columns_to_sum @ [''SUM'']
   \<and> column_cells ids_result_kec ''kec'' = [Num 10]"
  by code_simp

subsection \<open>The shape of the sub-district summary\<close>

text \<open>
  C9. Whenever the run yields a sub-district summary that is not empty, its columns are
  exactly \<^verbatim>\<open>kec\<close>, the six measure columns and \<^verbatim>\<open>SUM\<close>, in this order: the file tag
  of the per-file sums and the identifier columns of the input are not among them.
\<close>

theorem final_columns:
  assumes "process_files files kab_code table_prefix = Inr (out, sk, Some rk)"
    and "\<not> frame_empty rk"
  shows "names rk = ''kec'' # columns_to_sum @ [''SUM'']"
proof -
  from assms(1) obtain out1 where
    k: "summarize_kec (result_kec_of files kab_code table_prefix) kab_code table_prefix out1 = Inr (rk, out)"
    by (rule process_files_Inr)
  have ne: "\<not> frame_empty (result_kec_of files kab_code table_prefix)"
    using k assms(2) by (auto simp: summarize_kec_empty)
  from k ne obtain g totals where g: "groupby_sum (result_kec_of files kab_code table_prefix) ''kec'' columns_to_sum = Inr g"
    and rk: "rk = set_column g ''SUM'' (row_sum_dtype g columns_to_sum) totals"
    by (rule summarize_kec_Inr)
  show ?thesis
    by (simp add: rk names_set_column groupby_sum_names [OF g] kec_not_measure)
qed

theorem final_columns_witness:
  "process_files example_files 7205 ''4_54'' =
     Inr (example_out, Some example_summary_kab, Some example_result_kec)
   \<and> \<not> frame_empty example_result_kec
   \<and> names example_result_kec = ''kec'' # columns_to_sum @ [''SUM'']"
  using final_columns [OF example_run example_result_kec_not_empty]
    example_run example_result_kec_not_empty
  by simp

text \<open>
  C10. In every sub-district summary that is not empty the rows are in strictly ascending
  order of \<^verbatim>\<open>kec\<close>, whatever the order of the files and of the rows in them. The order
  of the keys is that of \<open>cell_key\<close>: numbers by value, before texts.
\<close>

theorem final_sorted:
  assumes "process_files files kab_code table_prefix = Inr (out, sk, Some rk)"
    and "\<not> frame_empty rk"
  shows "sorted_wrt (<) (map cell_key (map (\<lambda>r. r ''kec'') (records rk)))"
proof -
  from assms(1) obtain out1 where
    k: "summarize_kec (result_kec_of files kab_code table_prefix) kab_code table_prefix out1 = Inr (rk, out)"
    by (rule process_files_Inr)
  have ne: "\<not> frame_empty (result_kec_of files kab_code table_prefix)"
    using k assms(2) by (auto simp: summarize_kec_empty)
  from k ne obtain g totals where g: "groupby_sum (result_kec_of files kab_code table_prefix) ''kec'' columns_to_sum = Inr g"
    and totals: "row_sums (row_sum_dtype g columns_to_sum) (records g) columns_to_sum = Inr totals"
    and rk: "rk = set_column g ''SUM'' (row_sum_dtype g columns_to_sum) totals"
    by (rule summarize_kec_Inr)
  have "map (\<lambda>r. r ''kec'') (records rk) = map (\<lambda>r. r ''kec'') (records g)"
    unfolding rk records_set_column
    by (rule map_upd_other) (simp_all add: row_sums_length [OF totals])
  also have "\<dots> = group_keys (result_kec_of files kab_code table_prefix) ''kec''"
    by (rule groupby_sum_keys [OF g])
  finally show ?thesis
    by (simp only: group_keys_strict)
qed

theorem final_sorted_witness:
  "process_files example_files 7205 ''4_54'' =
     Inr (example_out, Some example_summary_kab, Some example_result_kec)
   \<and> \<not> frame_empty example_result_kec
   \<and> sorted_wrt (<) (map cell_key (map (\<lambda>r. r ''kec'') (records example_result_kec)))
   \<and> column_cells example_result_kec ''kec'' = [Num 10, Num 20]"
proof -
  have "column_cells example_result_kec ''kec'' = [Num 10, Num 20]"
    by code_simp
  with final_sorted [OF example_run example_result_kec_not_empty]
    example_run example_result_kec_not_empty
  show ?thesis by simp
qed

end
